theory Spec2Isabelle
  imports Complex_Main
begin

section \<open>The ML service of ai-sentinel: \<open>services/ml-service/app/main.py\<close>\<close>

text \<open>
  The two inference endpoints of the service, \<open>predict_disaster\<close> and \<open>analyze_image\<close>,
  as functions over explicit values. Python exceptions are values of type \<open>exn\<close>; a
  handler returns either the JSON object it answers with or the \<open>HTTPException\<close> it
  raises. Python floats and tensor entries are real numbers here: nothing proved below
  depends on rounding.
\<close>

subsection \<open>Values and exceptions\<close>

text \<open>An instance of a subclass of Python's \<open>Exception\<close>: its class name and \<open>str(e)\<close>.\<close>

datatype exn = Exn (exn_class: string) (exn_str: string)

datatype http_exception = HTTPException (status_code: nat) (detail: string)

text \<open>The JSON-like objects the handlers build: numbers, strings, lists and dicts
  (a dict keeps insertion order, so it is an association list).\<close>

datatype pyobj =
    PyInt int
  | PyFloat real
  | PyStr string
  | PyList "pyobj list"
  | PyDict "(string \<times> pyobj) list"

text \<open>What \<open>Tensor.tolist()\<close> returns: a Python float for a 0-dimensional tensor, a list
  of such results otherwise.\<close>

datatype nested = Num real | Nested "nested list"

fun bind_exn :: "exn + 'a \<Rightarrow> ('a \<Rightarrow> exn + 'b) \<Rightarrow> exn + 'b" where
  "bind_exn (Inl e) f = Inl e"
| "bind_exn (Inr v) f = f v"

text \<open>\<open>xs[i]\<close> on a Python list, for an index that is not negative.\<close>

definition list_index :: "'a list \<Rightarrow> nat \<Rightarrow> exn + 'a" where
  "list_index xs i =
     (if i < length xs then Inr (xs ! i)
      else Inl (Exn ''IndexError'' ''list index out of range''))"

text \<open>\<open>float(x)\<close> on an element of a \<open>tolist()\<close> result: a float is returned as it is,
  a list is refused with TypeError.\<close>

definition float_of_list_error :: exn where
  "float_of_list_error =
     Exn ''TypeError''
       (''float() argument must be a string or a real number, not 'list'' @ [CHR 0x27])"

fun py_float :: "nested \<Rightarrow> exn + real" where
  "py_float (Num r) = Inr r"
| "py_float (Nested xs) = Inl float_of_list_error"

subsection \<open>Images and tensors\<close>

type_synonym rgb = "nat \<times> nat \<times> nat"

text \<open>A decoded RGB image: PIL's \<open>size\<close> is (width, height); a pixel is read at (x, y).\<close>

record image =
  img_size :: "nat \<times> nat"
  img_pixel :: "nat \<Rightarrow> nat \<Rightarrow> rgb"

text \<open>A tensor of any rank: its shape and its entry at a multi-index.\<close>

record tensor =
  shape :: "nat list"
  entry :: "nat list \<Rightarrow> real"

text \<open>
  What the module takes from its libraries and from the weights file: decoding
  (\<open>Image.open(io.BytesIO(contents)).convert("RGB")\<close>, which raises on bytes that are no
  image), the resampling filters of \<open>Image.resize\<close> and of \<open>transforms.Resize\<close>, the
  forward pass of the loaded network on a batch (one row of logits per batch element,
  or an exception), and \<open>json.dumps\<close>.
\<close>

record env =
  image_open :: "nat list \<Rightarrow> exn + image"
  pil_resample :: "image \<Rightarrow> nat \<times> nat \<Rightarrow> nat \<Rightarrow> nat \<Rightarrow> rgb"
  tv_resample :: "image \<Rightarrow> nat \<times> nat \<Rightarrow> nat \<Rightarrow> nat \<Rightarrow> rgb"
  model :: "tensor \<Rightarrow> exn + real list list"
  json_dumps :: "pyobj \<Rightarrow> string"

text \<open>\<open>image.resize((w, h))\<close>.\<close>

definition image_resize :: "env \<Rightarrow> image \<Rightarrow> nat \<times> nat \<Rightarrow> image" where
  "image_resize env img sz = \<lparr>img_size = sz, img_pixel = pil_resample env img sz\<rparr>"

text \<open>\<open>transforms.Resize((h, w))\<close>: the result has height h and width w.\<close>

definition Resize :: "env \<Rightarrow> nat \<times> nat \<Rightarrow> image \<Rightarrow> image" where
  "Resize env hw img =
     \<lparr>img_size = (snd hw, fst hw), img_pixel = tv_resample env img (snd hw, fst hw)\<rparr>"

fun channel :: "nat \<Rightarrow> rgb \<Rightarrow> nat" where
  "channel c (r, g, b) = (if c = 0 then r else if c = 1 then g else b)"

text \<open>\<open>transforms.ToTensor()\<close>: a C x H x W tensor with the pixel values scaled to [0, 1].\<close>

definition ToTensor :: "image \<Rightarrow> tensor" where
  "ToTensor img =
     \<lparr>shape = [3, snd (img_size img), fst (img_size img)],
      entry = (\<lambda>idx. case idx of
                 [c, y, x] \<Rightarrow> real (channel c (img_pixel img x y)) / 255
               | _ \<Rightarrow> 0)\<rparr>"

text \<open>\<open>transforms.Normalize(mean, std)\<close>: per channel, \<open>(v - mean[c]) / std[c]\<close>.\<close>

definition Normalize :: "real list \<Rightarrow> real list \<Rightarrow> tensor \<Rightarrow> tensor" where
  "Normalize mean std t =
     \<lparr>shape = shape t,
      entry = (\<lambda>idx. case idx of
                 [] \<Rightarrow> 0
               | c # rest \<Rightarrow> if c < length mean \<and> c < length std
                             then (entry t idx - mean ! c) / std ! c else 0)\<rparr>"

text \<open>The module-level \<open>transform\<close>: \<open>Compose([Resize((224, 224)), ToTensor(), Normalize(...)])\<close>.\<close>

definition transform :: "env \<Rightarrow> image \<Rightarrow> tensor" where
  "transform env img =
     Normalize [485 / 1000, 456 / 1000, 406 / 1000] [229 / 1000, 224 / 1000, 225 / 1000]
       (ToTensor (Resize env (224, 224) img))"

text \<open>\<open>t.unsqueeze(0)\<close>: a leading dimension of size 1.\<close>

definition unsqueeze0 :: "tensor \<Rightarrow> tensor" where
  "unsqueeze0 t = \<lparr>shape = 1 # shape t, entry = (\<lambda>idx. entry t (tl idx))\<rparr>"

subsection \<open>Operations on the 2-dimensional output of the network\<close>

text \<open>\<open>torch.softmax(output, dim=1)\<close>: the softmax of each row.\<close>

definition softmax_row :: "real list \<Rightarrow> real list" where
  "softmax_row xs = map (\<lambda>x. exp x / sum_list (map exp xs)) xs"

definition softmax_dim1 :: "real list list \<Rightarrow> real list list" where
  "softmax_dim1 t = map softmax_row t"

text \<open>\<open>t.argmax().item()\<close> and \<open>t.max().item()\<close> with no \<open>dim\<close>: over the flattened
  tensor, the index of the first maximal entry and the maximal entry; a tensor with no
  entry is refused.\<close>

fun argmax_from :: "real list \<Rightarrow> nat \<Rightarrow> nat \<Rightarrow> real \<Rightarrow> nat" where
  "argmax_from [] i best bv = best"
| "argmax_from (x # xs) i best bv =
     (if bv < x then argmax_from xs (Suc i) i x else argmax_from xs (Suc i) best bv)"

definition tensor_argmax :: "real list list \<Rightarrow> exn + nat" where
  "tensor_argmax t =
     (case concat t of
        [] \<Rightarrow> Inl (Exn ''RuntimeError''
                 ''argmax(): Expected reduction dim to be specified for input.numel() == 0.'')
      | x # xs \<Rightarrow> Inr (argmax_from xs 1 0 x))"

definition tensor_max :: "real list list \<Rightarrow> exn + real" where
  "tensor_max t =
     (case concat t of
        [] \<Rightarrow> Inl (Exn ''RuntimeError''
                 ''max(): Expected reduction dim to be specified for input.numel() == 0.'')
      | x # xs \<Rightarrow> Inr (fold max xs x))"

text \<open>\<open>t.tolist()\<close> of a 2-dimensional tensor: a list with one inner list per row.\<close>

definition tolist :: "real list list \<Rightarrow> nested list" where
  "tolist t = map (\<lambda>row. Nested (map Num row)) t"

subsection \<open>The label tables\<close>

definition CLASS_LABELS :: "string list" where
  "CLASS_LABELS = [''No Damage'', ''Minor Damage'', ''Major Damage'', ''Destroyed'', ''Unknown'']"

definition SEVERITY_MAPPING :: "(nat \<times> string) list" where
  "SEVERITY_MAPPING =
     [(0, ''low''), (1, ''medium''), (2, ''high''), (3, ''critical''), (4, ''unknown'')]"

text \<open>\<open>SEVERITY_MAPPING[k]\<close>: KeyError on a key that is not in the dict.\<close>

definition severity_of :: "nat \<Rightarrow> exn + string" where
  "severity_of k =
     (case map_of SEVERITY_MAPPING k of
        None \<Rightarrow> Inl (Exn ''KeyError'' ''key not in SEVERITY_MAPPING'')
      | Some s \<Rightarrow> Inr s)"

text \<open>
  The dict comprehension of both handlers,
  \<open>{CLASS_LABELS[i]: float(prob) for i, prob in enumerate(probabilities.tolist())}\<close>,
  from index \<open>i\<close> on: for each item the key is evaluated, then the value.
\<close>

fun class_probabilities_from :: "nat \<Rightarrow> nested list \<Rightarrow> exn + (string \<times> pyobj) list" where
  "class_probabilities_from i [] = Inr []"
| "class_probabilities_from i (prob # rest) =
     bind_exn (list_index CLASS_LABELS i) (\<lambda>label.
     bind_exn (py_float prob) (\<lambda>v.
     bind_exn (class_probabilities_from (Suc i) rest) (\<lambda>d.
       Inr ((label, PyFloat v) # d))))"

subsection \<open>The outside world: Redis, the logger, the clock\<close>

record world =
  redis_up :: bool
  redis_store :: "string \<rightharpoonup> nat \<times> string"
  logged :: "string list"
  utcnow_iso :: string

definition redis_unavailable :: exn where
  "redis_unavailable = Exn ''ConnectionError'' ''Error connecting to Redis''"

text \<open>\<open>redis_client.setex(key, ttl, value)\<close>: stores the value with its time to live, or
  raises when the server cannot be reached.\<close>

definition redis_setex :: "world \<Rightarrow> string \<Rightarrow> nat \<Rightarrow> string \<Rightarrow> exn + world" where
  "redis_setex w key ttl v =
     (if redis_up w then Inr (w\<lparr>redis_store := (redis_store w)(key \<mapsto> (ttl, v))\<rparr>)
      else Inl redis_unavailable)"

definition logger_info :: "world \<Rightarrow> string \<Rightarrow> world" where
  "logger_info w msg = w\<lparr>logged := logged w @ [''INFO:'' @ msg]\<rparr>"

definition logger_error :: "world \<Rightarrow> string \<Rightarrow> world" where
  "logger_error w msg = w\<lparr>logged := logged w @ [''ERROR:'' @ msg]\<rparr>"

subsection \<open>\<open>predict_disaster\<close>\<close>

record upload =
  filename :: string
  contents :: "nat list"

text \<open>Lines 116 to 121: the cache write, the log line and the return.\<close>

definition cache_and_return ::
    "env \<Rightarrow> upload \<Rightarrow> string \<Rightarrow> pyobj \<Rightarrow> world \<Rightarrow> (exn + pyobj) \<times> world" where
  "cache_and_return env file class_name prediction w =
     (let cache_key = ''prediction:'' @ filename file in
      case redis_setex w cache_key 3600 (json_dumps env prediction) of
        Inl e \<Rightarrow> (Inl e, w)
      | Inr w1 \<Rightarrow>
          (Inr prediction,
           logger_info w1 (''Prediction: '' @ filename file @ '' -> '' @ class_name)))"

text \<open>A step of a \<open>try\<close> body that may raise: the exception leaves the body with the
  world as it is, a value goes on to the rest of the body.\<close>

fun or_raise ::
    "exn + 'a \<Rightarrow> world \<Rightarrow> ('a \<Rightarrow> (exn + 'b) \<times> world) \<Rightarrow> (exn + 'b) \<times> world" where
  "or_raise (Inl e) w f = (Inl e, w)"
| "or_raise (Inr v) w f = f v"

text \<open>The body of the \<open>try\<close> of \<open>predict_disaster\<close>, lines 93 to 121. The entries of the
  dict literal are evaluated in the order they are written.\<close>

definition predict_try :: "env \<Rightarrow> upload \<Rightarrow> world \<Rightarrow> (exn + pyobj) \<times> world" where
  "predict_try env file w =
     or_raise (image_open env (contents file)) w (\<lambda>img.
     let tensor = unsqueeze0 (transform env img) in
     or_raise (model env tensor) w (\<lambda>output.
     let probabilities = softmax_dim1 output in
     or_raise (tensor_argmax probabilities) w (\<lambda>predicted_class.
     or_raise (tensor_max probabilities) w (\<lambda>confidence.
     or_raise (list_index CLASS_LABELS predicted_class) w (\<lambda>class_name.
     or_raise (severity_of predicted_class) w (\<lambda>severity.
     or_raise (class_probabilities_from 0 (tolist probabilities)) w (\<lambda>class_probabilities.
     let prediction = PyDict
           [(''class'', PyInt (int predicted_class)),
            (''class_name'', PyStr class_name),
            (''severity'', PyStr severity),
            (''confidence'', PyFloat confidence),
            (''class_probabilities'', PyDict class_probabilities),
            (''timestamp'', PyStr (utcnow_iso w))]
     in cache_and_return env file class_name prediction w)))))))"

text \<open>The handler: \<open>except Exception as e\<close> logs and raises \<open>HTTPException(400, str(e))\<close>.\<close>

definition predict_disaster ::
    "env \<Rightarrow> upload \<Rightarrow> world \<Rightarrow> (http_exception + pyobj) \<times> world" where
  "predict_disaster env file w =
     (case predict_try env file w of
        (Inl e, w1) \<Rightarrow>
          (Inl (HTTPException 400 (exn_str e)),
           logger_error w1 (''Prediction error: '' @ exn_str e))
      | (Inr prediction, w1) \<Rightarrow> (Inr prediction, w1))"

subsection \<open>\<open>analyze_image\<close>\<close>

text \<open>Lines 137 and 138: the input of the network for one scale.\<close>

definition scale_input :: "env \<Rightarrow> image \<Rightarrow> nat \<Rightarrow> tensor" where
  "scale_input env img scale =
     (let resized = image_resize env img (scale, scale)
      in unsqueeze0 (transform env resized))"

text \<open>Lines 137 to 150: one round of the loop, giving the entry appended to \<open>results\<close>.\<close>

definition scale_observation :: "env \<Rightarrow> image \<Rightarrow> nat \<Rightarrow> exn + pyobj" where
  "scale_observation env img scale =
     bind_exn (model env (scale_input env img scale)) (\<lambda>output.
     let probabilities = softmax_dim1 output in
     bind_exn (class_probabilities_from 0 (tolist probabilities)) (\<lambda>predictions.
       Inr (PyDict [(''scale'', PyInt (int scale)), (''predictions'', PyDict predictions)])))"

text \<open>The loop \<open>for scale in scales\<close>, with \<open>results\<close> as accumulator.\<close>

fun analyze_loop :: "env \<Rightarrow> image \<Rightarrow> nat list \<Rightarrow> pyobj list \<Rightarrow> exn + pyobj list" where
  "analyze_loop env img [] results = Inr results"
| "analyze_loop env img (scale # scales) results =
     bind_exn (scale_observation env img scale) (\<lambda>r.
       analyze_loop env img scales (results @ [r]))"

text \<open>\<open>r[key]\<close> on a dict built by the handler.\<close>

fun py_getitem :: "pyobj \<Rightarrow> string \<Rightarrow> exn + pyobj" where
  "py_getitem (PyDict kvs) key =
     (case map_of kvs key of
        None \<Rightarrow> Inl (Exn ''KeyError'' key)
      | Some v \<Rightarrow> Inr v)"
| "py_getitem other key = Inl (Exn ''TypeError'' ''object is not subscriptable by a string key'')"

text \<open>A list comprehension whose element expression may raise.\<close>

fun map_exn :: "('a \<Rightarrow> exn + 'b) \<Rightarrow> 'a list \<Rightarrow> exn + 'b list" where
  "map_exn f [] = Inr []"
| "map_exn f (x # xs) = bind_exn (f x) (\<lambda>y. bind_exn (map_exn f xs) (\<lambda>ys. Inr (y # ys)))"

fun as_number :: "pyobj \<Rightarrow> real option" where
  "as_number (PyInt i) = Some (real_of_int i)"
| "as_number (PyFloat r) = Some r"
| "as_number other = None"

fun as_row :: "pyobj \<Rightarrow> real list option" where
  "as_row (PyList xs) = those (map as_number xs)"
| "as_row other = None"

definition dict_sum_error :: exn where
  "dict_sum_error =
     Exn ''TypeError''
       (''unsupported operand type(s) for +: 'dict' and 'dict'' @ [CHR 0x27])"

text \<open>
  \<open>np.mean(rows, axis=0)\<close> on the arguments this module can hand to it. One or more
  lists of numbers of one length are a 2-dimensional array, whose column means are
  returned. A list with an element that is no list of numbers (a dict, as here) is an
  array of objects: numpy adds its elements with Python's \<open>+\<close>, which raises TypeError.
  Rows of different lengths are refused with ValueError. The empty list, which numpy
  answers with nan, has no real number to stand for its result and is refused as well;
  the handler never builds it, its list has one entry for each scale.
\<close>

definition np_mean_axis0 :: "pyobj list \<Rightarrow> exn + real list" where
  "np_mean_axis0 rows =
     (case those (map as_row rows) of
        None \<Rightarrow> Inl dict_sum_error
      | Some rs \<Rightarrow>
          if rs = [] \<or> \<not> list_all (\<lambda>r. length r = length (hd rs)) rs
          then Inl (Exn ''ValueError'' ''setting an array element with a sequence.'')
          else Inr (map (\<lambda>j. sum_list (map (\<lambda>r. r ! j) rs) / real (length rs))
                      [0..<length (hd rs)]))"

text \<open>\<open>np.argmax(v)\<close> on a 1-dimensional array: the index of the first maximal entry.\<close>

definition np_argmax :: "real list \<Rightarrow> exn + nat" where
  "np_argmax v =
     (case v of
        [] \<Rightarrow> Inl (Exn ''ValueError'' ''attempt to get argmax of an empty sequence'')
      | x # xs \<Rightarrow> Inr (argmax_from xs 1 0 x))"

text \<open>The body of the \<open>try\<close> of \<open>analyze_image\<close>, lines 130 to 162.\<close>

definition analyze_try :: "env \<Rightarrow> upload \<Rightarrow> exn + pyobj" where
  "analyze_try env file =
     bind_exn (image_open env (contents file)) (\<lambda>img.
     let scales = [224, 256, 384] in
     bind_exn (analyze_loop env img scales []) (\<lambda>results.
     bind_exn (map_exn (\<lambda>r. py_getitem r ''predictions'') results) (\<lambda>preds.
     bind_exn (np_mean_axis0 preds) (\<lambda>ensemble_probs.
     bind_exn (np_argmax ensemble_probs) (\<lambda>predicted_class.
     bind_exn (list_index CLASS_LABELS predicted_class) (\<lambda>class_name.
     bind_exn (list_index ensemble_probs predicted_class) (\<lambda>confidence.
       Inr (PyDict
         [(''analysis'', PyList results),
          (''ensemble_prediction'', PyDict
             [(''class'', PyInt (int predicted_class)),
              (''class_name'', PyStr class_name),
              (''confidence'', PyFloat confidence)])]))))))))"

definition analyze_image ::
    "env \<Rightarrow> upload \<Rightarrow> world \<Rightarrow> (http_exception + pyobj) \<times> world" where
  "analyze_image env file w =
     (case analyze_try env file of
        Inl e \<Rightarrow>
          (Inl (HTTPException 400 (exn_str e)),
           logger_error w (''Analysis error: '' @ exn_str e))
      | Inr result \<Rightarrow> (Inr result, w))"

subsection \<open>A concrete setting\<close>

text \<open>
  A decoder that accepts exactly the payloads starting with the JPEG marker bytes
  FF D8 and reads them as a black 224 x 224 image, resampling filters that keep a black
  image black, a network whose five logits are all 0, and a serializer that answers
  with a fixed string.
\<close>

definition black :: image where
  "black = \<lparr>img_size = (224, 224), img_pixel = (\<lambda>x y. (0, 0, 0))\<rparr>"

definition not_an_image :: exn where
  "not_an_image = Exn ''UnidentifiedImageError'' ''cannot identify image file''"

definition env0 :: env where
  "env0 =
     \<lparr>image_open = (\<lambda>bs. if take 2 bs = [255, 216] then Inr black else Inl not_an_image),
      pil_resample = (\<lambda>img sz x y. (0, 0, 0)),
      tv_resample = (\<lambda>img sz x y. (0, 0, 0)),
      model = (\<lambda>t. Inr [[0, 0, 0, 0, 0]]),
      json_dumps = (\<lambda>obj. ''{}'')\<rparr>"

definition world0 :: world where
  "world0 = \<lparr>redis_up = True, redis_store = Map.empty, logged = [], utcnow_iso = ''2024-01-01T00:00:00''\<rparr>"

definition jpeg_upload :: upload where
  "jpeg_upload = \<lparr>filename = ''a.jpg'', contents = [255, 216, 255, 224]\<rparr>"

definition text_upload :: upload where
  "text_upload = \<lparr>filename = ''notes.txt'', contents = [104, 105]\<rparr>"

definition world_redis_down :: world where
  "world_redis_down = world0\<lparr>redis_up := False\<rparr>"

text \<open>The result that lines 104 to 114 are written to build for the black image: class 0
  with confidence 1/5 and the five probabilities under their labels.\<close>

definition sample_prediction :: pyobj where
  "sample_prediction = PyDict
     [(''class'', PyInt 0),
      (''class_name'', PyStr ''No Damage''),
      (''severity'', PyStr ''low''),
      (''confidence'', PyFloat (1 / 5)),
      (''class_probabilities'', PyDict
         [(''No Damage'', PyFloat (1 / 5)), (''Minor Damage'', PyFloat (1 / 5)),
          (''Major Damage'', PyFloat (1 / 5)), (''Destroyed'', PyFloat (1 / 5)),
          (''Unknown'', PyFloat (1 / 5))]),
      (''timestamp'', PyStr ''2024-01-01T00:00:00'')]"

section \<open>Properties\<close>

subsection \<open>Unfolding the steps\<close>

lemma or_raise_case: "or_raise m w f = (case m of Inl e \<Rightarrow> (Inl e, w) | Inr v \<Rightarrow> f v)"
  by (cases m) simp_all

lemma bind_exn_case: "bind_exn m f = (case m of Inl e \<Rightarrow> Inl e | Inr v \<Rightarrow> f v)"
  by (cases m) simp_all

lemma env0_simps:
  "image_open env0 = (\<lambda>bs. if take 2 bs = [255, 216] then Inr black else Inl not_an_image)"
  "model env0 = (\<lambda>t. Inr [[0, 0, 0, 0, 0]])"
  "json_dumps env0 = (\<lambda>obj. ''{}'')"
  by (simp_all add: env0_def)

lemmas eval_defs =
  predict_disaster_def predict_try_def analyze_image_def analyze_try_def
  scale_observation_def env0_simps jpeg_upload_def text_upload_def world0_def
  world_redis_down_def sample_prediction_def
  softmax_dim1_def softmax_row_def tensor_argmax_def tensor_max_def list_index_def
  CLASS_LABELS_def severity_of_def SEVERITY_MAPPING_def tolist_def
  logger_error_def logger_info_def cache_and_return_def redis_setex_def

subsection \<open>The dict comprehension over \<open>tolist()\<close> of a 2-dimensional tensor\<close>

lemma label0: "list_index CLASS_LABELS 0 = Inr ''No Damage''"
  by (simp add: list_index_def CLASS_LABELS_def)

text \<open>The first item of the enumeration is a row, a list: \<open>float\<close> refuses it.\<close>

lemma class_probabilities_from_rows:
  "t \<noteq> [] \<Longrightarrow> class_probabilities_from 0 (tolist t) = Inl float_of_list_error"
  by (cases t) (simp_all add: tolist_def label0)

lemma tensor_argmax_rows: "tensor_argmax t = Inr k \<Longrightarrow> t \<noteq> []"
  by (auto simp: tensor_argmax_def)

subsection \<open>The \<open>try\<close> body of \<open>predict_disaster\<close> always raises\<close>

lemma predict_try_raises: "\<exists>e. predict_try env file w = (Inl e, w)"
  unfolding predict_try_def or_raise_case Let_def
  by (auto split: sum.splits dest!: tensor_argmax_rows
      simp: class_probabilities_from_rows softmax_dim1_def)

lemma predict_disaster_400:
  "\<exists>e. predict_disaster env file w =
     (Inl (HTTPException 400 (exn_str e)), logger_error w (''Prediction error: '' @ exn_str e))"
  using predict_try_raises [of env "file" w] by (auto simp: predict_disaster_def)

lemma argmax_from_bound: "best < i \<Longrightarrow> argmax_from xs i best bv < i + length xs"
proof (induction xs arbitrary: i best bv)
  case Nil
  then show ?case by simp
next
  case (Cons a xs)
  have "argmax_from xs (Suc i) i a < Suc i + length xs"
    by (rule Cons.IH) simp
  moreover have "argmax_from xs (Suc i) best bv < Suc i + length xs"
    by (rule Cons.IH) (use Cons.prems in simp)
  ultimately show ?case by simp
qed

lemma tensor_argmax_one_row:
  "length row = 5 \<Longrightarrow> \<exists>k<5. tensor_argmax (softmax_dim1 [row]) = Inr k"
proof -
  assume len: "length row = 5"
  then obtain x xs where row: "softmax_row row = x # xs" and xs: "length xs = 4"
    by (cases row) (auto simp: softmax_row_def)
  have "argmax_from xs 1 0 x < 1 + length xs"
    by (rule argmax_from_bound) simp
  with row xs show ?thesis
    by (simp add: tensor_argmax_def softmax_dim1_def)
qed

lemma tensor_max_one_row:
  "length row = 5 \<Longrightarrow> \<exists>c. tensor_max (softmax_dim1 [row]) = Inr c"
  by (cases row) (auto simp: tensor_max_def softmax_dim1_def softmax_row_def)

lemma label_defined: "k < 5 \<Longrightarrow> \<exists>l. list_index CLASS_LABELS k = Inr l"
  by (simp add: list_index_def CLASS_LABELS_def)

lemma severity_defined: "k < 5 \<Longrightarrow> \<exists>s. severity_of k = Inr s"
proof -
  assume "k < 5"
  then have "k = 0 \<or> k = 1 \<or> k = 2 \<or> k = 3 \<or> k = 4" by arith
  then show ?thesis
    by (auto simp: severity_of_def SEVERITY_MAPPING_def)
qed

text \<open>With a decoded image and one row of five logits, every step before the dict
  comprehension succeeds, and the exception is the TypeError of \<open>float\<close>.\<close>

lemma predict_try_float_error:
  assumes "image_open env (contents file) = Inr img"
    and "model env (unsqueeze0 (transform env img)) = Inr [row]"
    and "length row = 5"
  shows "predict_try env file w = (Inl float_of_list_error, w)"
proof -
  from tensor_argmax_one_row [OF assms(3)] obtain k where
    k: "k < 5" "tensor_argmax (softmax_dim1 [row]) = Inr k" by blast
  from tensor_max_one_row [OF assms(3)] obtain c where
    c: "tensor_max (softmax_dim1 [row]) = Inr c" by blast
  from label_defined [OF k(1)] obtain l where l: "list_index CLASS_LABELS k = Inr l" by blast
  from severity_defined [OF k(1)] obtain s where s: "severity_of k = Inr s" by blast
  have "class_probabilities_from 0 (tolist (softmax_dim1 [row])) = Inl float_of_list_error"
    by (rule class_probabilities_from_rows) (simp add: softmax_dim1_def)
  with assms(1,2) k(2) c l s show ?thesis
    by (simp add: predict_try_def)
qed

subsection \<open>The \<open>try\<close> body of \<open>analyze_image\<close> always raises\<close>

lemma scale_observation_shape:
  "scale_observation env img scale = Inr r \<Longrightarrow>
     \<exists>p. r = PyDict [(''scale'', PyInt (int scale)), (''predictions'', PyDict p)]"
  unfolding scale_observation_def bind_exn_case Let_def
  by (auto split: sum.splits)

text \<open>A loop that completes has appended one observation for each scale.\<close>

lemma analyze_loop_results:
  "analyze_loop env img scales acc = Inr results \<Longrightarrow>
     \<exists>rs. results = acc @ rs \<and> length rs = length scales \<and>
       (\<forall>r \<in> set rs. \<exists>s p. r = PyDict [(''scale'', PyInt s), (''predictions'', PyDict p)])"
proof (induction scales arbitrary: acc)
  case Nil
  then show ?case by simp
next
  case (Cons scale scales)
  from Cons.prems obtain r where
    r: "scale_observation env img scale = Inr r"
    and rest: "analyze_loop env img scales (acc @ [r]) = Inr results"
    by (auto simp: bind_exn_case split: sum.splits)
  from Cons.IH [OF rest] obtain rs where
    rs: "results = (acc @ [r]) @ rs" "length rs = length scales"
      "\<forall>r \<in> set rs. \<exists>s p. r = PyDict [(''scale'', PyInt s), (''predictions'', PyDict p)]"
    by blast
  from scale_observation_shape [OF r] rs show ?case
    by (intro exI [of _ "r # rs"]) auto
qed

lemma predictions_of_results:
  "\<forall>r \<in> set rs. \<exists>s p. r = PyDict [(''scale'', PyInt s), (''predictions'', PyDict p)] \<Longrightarrow>
     \<exists>ps. map_exn (\<lambda>r. py_getitem r ''predictions'') rs = Inr ps \<and> length ps = length rs \<and>
       (\<forall>p \<in> set ps. \<exists>d. p = PyDict d)"
proof (induction rs)
  case Nil
  then show ?case by simp
next
  case (Cons r rs)
  then obtain ps where ps: "map_exn (\<lambda>r. py_getitem r ''predictions'') rs = Inr ps"
      "length ps = length rs" "\<forall>p \<in> set ps. \<exists>d. p = PyDict d"
    by auto
  from Cons.prems obtain s p where
    "r = PyDict [(''scale'', PyInt s), (''predictions'', PyDict p)]"
    by auto
  with ps show ?case by auto
qed

text \<open>\<open>np.mean\<close> cannot average dicts.\<close>

lemma np_mean_of_dicts:
  "ps \<noteq> [] \<Longrightarrow> \<forall>p \<in> set ps. \<exists>d. p = PyDict d \<Longrightarrow> np_mean_axis0 ps = Inl dict_sum_error"
  by (cases ps) (auto simp: np_mean_axis0_def)

lemma analyze_try_raises: "\<exists>e. analyze_try env file = Inl e"
proof (cases "image_open env (contents file)")
  case (Inl e)
  then show ?thesis by (simp add: analyze_try_def)
next
  case (Inr img)
  show ?thesis
  proof (cases "analyze_loop env img [224, 256, 384] []")
    case (Inl e)
    with Inr show ?thesis by (simp add: analyze_try_def)
  next
    case results: (Inr results)
    from analyze_loop_results [OF results] have
      len: "length results = 3" and
      obs: "\<forall>r \<in> set results.
              \<exists>s p. r = PyDict [(''scale'', PyInt s), (''predictions'', PyDict p)]"
      by auto
    from predictions_of_results [OF obs] obtain ps where
      ps: "map_exn (\<lambda>r. py_getitem r ''predictions'') results = Inr ps"
        "length ps = length results" "\<forall>p \<in> set ps. \<exists>d. p = PyDict d"
      by blast
    from ps len have "ps \<noteq> []" by auto
    from np_mean_of_dicts [OF this ps(3)] Inr results ps(1) show ?thesis
      by (simp add: analyze_try_def)
  qed
qed

lemma analyze_image_400:
  "\<exists>e. analyze_image env file w =
     (Inl (HTTPException 400 (exn_str e)), logger_error w (''Analysis error: '' @ exn_str e))"
  using analyze_try_raises [of env "file"] by (auto simp: analyze_image_def)

lemma analyze_try_float_error:
  assumes "image_open env (contents file) = Inr img"
    and "model env (scale_input env img 224) = Inr [row]"
  shows "analyze_try env file = Inl float_of_list_error"
proof -
  have "class_probabilities_from 0 (tolist (softmax_dim1 [row])) = Inl float_of_list_error"
    by (rule class_probabilities_from_rows) (simp add: softmax_dim1_def)
  with assms(2) have "scale_observation env img 224 = Inl float_of_list_error"
    by (simp add: scale_observation_def)
  with assms(1) show ?thesis
    by (simp add: analyze_try_def)
qed

subsection \<open>No request returns a result\<close>

lemma predict_disaster_returns_no_result: "fst (predict_disaster env file w) \<noteq> Inr r"
  using predict_disaster_400 [of env "file" w] by auto

lemma analyze_image_returns_no_result: "fst (analyze_image env file w) \<noteq> Inr r"
  using analyze_image_400 [of env "file" w] by auto

text \<open>A request to \<open>predict_disaster\<close> leaves the Redis store as it was.\<close>

lemma predict_disaster_keeps_store:
  "redis_store (snd (predict_disaster env file w)) = redis_store w"
  using predict_disaster_400 [of env "file" w] by (auto simp: logger_error_def)

subsection \<open>The claims\<close>

text \<open>
  C1. For every valid image, predict is to return five class probabilities that are
  not negative and sum to 1. On the black JPEG upload, with a network answering five
  equal logits, the softmax row is (1/5, ..., 1/5), a valid distribution; the dict
  comprehension then applies \<open>float\<close> to the whole row, and the handler answers with
  HTTP 400 instead of a probability vector.
\<close>

theorem predict_valid_image_returns_no_probabilities:
  "softmax_dim1 [[0, 0, 0, 0, 0]] = [[1 / 5, 1 / 5, 1 / 5, 1 / 5, 1 / 5]] \<and>
   class_probabilities_from 0 (tolist (softmax_dim1 [[0, 0, 0, 0, 0]])) =
     Inl float_of_list_error \<and>
   fst (predict_disaster env0 jpeg_upload world0) =
     Inl (HTTPException 400 (exn_str float_of_list_error))"
  by (simp add: eval_defs)

text \<open>
  C4. For every valid image analyze is to produce three observations, for the scales
  224, 256 and 384 in this order. On the black image the first round of the loop, at
  scale 224, raises, so the loop over the three scales ends with the exception and with
  no observation.
\<close>

theorem analyze_stops_at_first_scale:
  "scale_observation env0 black 224 = Inl float_of_list_error \<and>
   analyze_loop env0 black [224, 256, 384] [] = Inl float_of_list_error"
  by (simp add: eval_defs)

text \<open>
  C5. For every input, predict and analyze both end with an HTTP 400 error and never
  with a success response. When the bytes decode and the network answers a batch of one
  row of five logits, the exception behind the error is the TypeError that \<open>float\<close>
  raises on the inner list of \<open>probabilities.tolist()\<close>, and the \<open>except\<close> clause turns it
  into \<open>HTTPException(400)\<close> with its message as detail.
\<close>

theorem every_request_is_answered_400:
  "(\<exists>d w'. predict_disaster env file w = (Inl (HTTPException 400 d), w')) \<and>
   (\<exists>d w'. analyze_image env file w = (Inl (HTTPException 400 d), w')) \<and>
   (\<forall>img row. image_open env (contents file) = Inr img \<and>
        model env (unsqueeze0 (transform env img)) = Inr [row] \<and> length row = 5 \<longrightarrow>
      fst (predict_disaster env file w) =
        Inl (HTTPException 400 (exn_str float_of_list_error))) \<and>
   (\<forall>img row. image_open env (contents file) = Inr img \<and>
        model env (scale_input env img 224) = Inr [row] \<and> length row = 5 \<longrightarrow>
      fst (analyze_image env file w) =
        Inl (HTTPException 400 (exn_str float_of_list_error)))"
proof (intro conjI allI impI)
  show "\<exists>d w'. predict_disaster env file w = (Inl (HTTPException 400 d), w')"
    using predict_disaster_400 [of env "file" w] by blast
  show "\<exists>d w'. analyze_image env file w = (Inl (HTTPException 400 d), w')"
    using analyze_image_400 [of env "file" w] by blast
next
  fix img row
  assume "image_open env (contents file) = Inr img \<and>
    model env (unsqueeze0 (transform env img)) = Inr [row] \<and> length row = 5"
  then have "predict_try env file w = (Inl float_of_list_error, w)"
    by (intro predict_try_float_error) auto
  then show "fst (predict_disaster env file w) =
      Inl (HTTPException 400 (exn_str float_of_list_error))"
    by (simp add: predict_disaster_def)
next
  fix img row
  assume "image_open env (contents file) = Inr img \<and>
    model env (scale_input env img 224) = Inr [row] \<and> length row = 5"
  then have "analyze_try env file = Inl float_of_list_error"
    by (intro analyze_try_float_error) auto
  then show "fst (analyze_image env file w) =
      Inl (HTTPException 400 (exn_str float_of_list_error))"
    by (simp add: analyze_image_def)
qed

theorem every_request_is_answered_400_witness:
  "image_open env0 (contents jpeg_upload) = Inr black \<and>
   model env0 (unsqueeze0 (transform env0 black)) = Inr [[0, 0, 0, 0, 0]] \<and>
   model env0 (scale_input env0 black 224) = Inr [[0, 0, 0, 0, 0]] \<and>
   length [0, 0, 0, 0, 0 :: real] = 5 \<and>
   fst (predict_disaster env0 jpeg_upload world0) =
     Inl (HTTPException 400 (exn_str float_of_list_error)) \<and>
   fst (analyze_image env0 jpeg_upload world0) =
     Inl (HTTPException 400 (exn_str float_of_list_error))"
proof -
  have h1: "image_open env0 (contents jpeg_upload) = Inr black"
    by (simp add: env0_simps jpeg_upload_def)
  have h2: "model env0 (unsqueeze0 (transform env0 black)) = Inr [[0, 0, 0, 0, 0]]"
    by (simp add: env0_simps)
  have h3: "model env0 (scale_input env0 black 224) = Inr [[0, 0, 0, 0, 0]]"
    by (simp add: env0_simps)
  have h4: "length [0, 0, 0, 0, 0 :: real] = 5" by simp
  from every_request_is_answered_400 [of env0 jpeg_upload world0] h1 h2 h3 h4
  show ?thesis by blast
qed

text \<open>
  C6. A failing cache write is to be logged and swallowed, and the request is still to
  return its result. With Redis unreachable, lines 116 to 121 on a finished prediction
  end with the connection error of \<open>setex\<close>, nothing being logged, and the request for
  the black JPEG upload ends with an exception.
\<close>

theorem cache_failure_fails_request:
  "cache_and_return env0 jpeg_upload ''No Damage'' sample_prediction world_redis_down =
     (Inl redis_unavailable, world_redis_down) \<and>
   isl (fst (predict_disaster env0 jpeg_upload world_redis_down))"
  by (simp add: eval_defs)



text \<open>
  C8. Bytes that do not decode as an image make predict and analyze both raise
  \<open>HTTPException(400)\<close> whose detail is the message of the decoder's exception; the error
  is logged and nothing else happens.
\<close>

theorem malformed_bytes_answered_400:
  "image_open env (contents file) = Inl e \<Longrightarrow>
     predict_disaster env file w =
       (Inl (HTTPException 400 (exn_str e)),
        logger_error w (''Prediction error: '' @ exn_str e)) \<and>
     analyze_image env file w =
       (Inl (HTTPException 400 (exn_str e)),
        logger_error w (''Analysis error: '' @ exn_str e))"
  by (simp add: predict_disaster_def predict_try_def analyze_image_def analyze_try_def)

theorem malformed_bytes_answered_400_witness:
  "image_open env0 (contents text_upload) = Inl not_an_image \<and>
   predict_disaster env0 text_upload world0 =
     (Inl (HTTPException 400 ''cannot identify image file''),
      logger_error world0 ''Prediction error: cannot identify image file'') \<and>
   analyze_image env0 text_upload world0 =
     (Inl (HTTPException 400 ''cannot identify image file''),
      logger_error world0 ''Analysis error: cannot identify image file'')"
proof -
  have h: "image_open env0 (contents text_upload) = Inl not_an_image"
    by (simp add: env0_simps text_upload_def)
  from malformed_bytes_answered_400 [OF h, of world0] h show ?thesis
    by (simp add: not_an_image_def)
qed

text \<open>
  C9. Two calls of predict with the same bytes and filename are to return results that
  agree in every field but the timestamp. For the black JPEG upload, the first call and
  a second call five seconds later both answer with HTTP 400: neither returns a result.
\<close>

theorem predict_twice_returns_no_results:
  "fst (predict_disaster env0 jpeg_upload world0) =
     Inl (HTTPException 400 (exn_str float_of_list_error)) \<and>
   fst (predict_disaster env0 jpeg_upload
         ((snd (predict_disaster env0 jpeg_upload world0))
            \<lparr>utcnow_iso := ''2024-01-01T00:00:05''\<rparr>)) =
     Inl (HTTPException 400 (exn_str float_of_list_error))"
  by (simp add: eval_defs)

text \<open>
  C10. The input of the network for a scale is to have that scale's resolution. The
  image is resized to scale x scale, but \<open>transform\<close> then resizes it to 224 x 224: for
  the scales 224, 256 and 384 alike the network is given a tensor of shape
  1 x 3 x 224 x 224.
\<close>

theorem scale_input_is_always_224:
  "shape (scale_input env img 224) = [1, 3, 224, 224] \<and>
   shape (scale_input env img 256) = [1, 3, 224, 224] \<and>
   shape (scale_input env img 384) = [1, 3, 224, 224]"
  by (simp add: scale_input_def unsqueeze0_def transform_def Normalize_def ToTensor_def
      Resize_def)

end
